theory Spec2Isabelle
  imports Main
begin

section \<open>Shared types (src/types.ts)\<close>

text \<open>
  \<^verbatim>\<open>LogLevel = 'error' | 'warn' | 'info' | 'debug'\<close>. The string behind each
  level is what the adapters send to the backend.
\<close>

datatype LogLevel = LevelError | LevelWarn | LevelInfo | LevelDebug

fun level_str :: "LogLevel \<Rightarrow> string" where
  "level_str LevelError = ''error''"
| "level_str LevelWarn = ''warn''"
| "level_str LevelInfo = ''info''"
| "level_str LevelDebug = ''debug''"

text \<open>
  A JavaScript \<^verbatim>\<open>Date\<close> holds a time value (milliseconds since the epoch) or
  NaN (an "Invalid Date"). Every \<^verbatim>\<open>Date\<close> object is truthy.
\<close>

datatype js_date = Date int | InvalidDate

fun time_value :: "js_date \<Rightarrow> int" where
  "time_value (Date t) = t"
| "time_value InvalidDate = 0"

text \<open>
  What a rejected promise carries: an \<^verbatim>\<open>Error\<close> instance with its message,
  or any other thrown value.
\<close>

datatype thrown = Err string | NonError string

datatype order_by = ByCreatedAt | ByLevel

datatype order_dir = OrderAsc | OrderDesc

datatype json =
  JNull | JBool bool | JNum int | JStr string | JArr "json list" | JObj "(string \<times> json) list"

text \<open>
  \<open>page\<close>, \<open>limit\<close> and the offset computed from them are JavaScript numbers, that
  is doubles. Their arithmetic and their printing belong to the platform, so the adapters
  are modelled over any type \<open>'n\<close> of numbers, with the platform's operations as a
  parameter: the number a literal denotes, subtraction, multiplication, and the text a
  template literal puts for \<^verbatim>\<open>${x}\<close>.
\<close>

record 'n JsNumbers =
  num_literal :: "nat \<Rightarrow> 'n"
  num_minus :: "'n \<Rightarrow> 'n \<Rightarrow> 'n"
  num_times :: "'n \<Rightarrow> 'n \<Rightarrow> 'n"
  num_toString :: "'n \<Rightarrow> string"

text \<open>\<^verbatim>\<open>QueryOptions\<close>: every field is optional.\<close>

record 'n QueryOptions =
  q_page :: "'n option"
  q_limit :: "'n option"
  q_level :: "LogLevel option"
  q_userId :: "string option"
  q_search :: "string option"
  q_startDate :: "js_date option"
  q_endDate :: "js_date option"
  q_orderBy :: "order_by option"
  q_order :: "order_dir option"

text \<open>
  The argument of \<^verbatim>\<open>deleteMany\<close>: \<^verbatim>\<open>{ before?: Date; level?: LogLevel }\<close>.
  The adapters read \<open>level\<close> at its declared type \<open>LogLevel\<close>; the HTTP handler
  fills it by an unchecked cast of a JSON value, so the type of \<open>level\<close> is a parameter.
\<close>

record 'l DeleteManyOptions =
  d_before :: "js_date option"
  d_level :: "'l option"

text \<open>
  A JavaScript number as the adapters return it in \<open>total\<close>: an integer, NaN, or
  \<^verbatim>\<open>Number(s)\<close> of a string \<open>s\<close> handed back by the driver, which is kept as it is.
\<close>

datatype js_number = Num int | NaN | NumberOf string

record 'e FindManyResult =
  logs :: "'e list"
  total :: js_number

section \<open>Asynchronous calls against a backend\<close>

text \<open>
  An \<^verbatim>\<open>async\<close> function is a state transformer on the backend's state that
  either resolves with a value (\<open>Inr\<close>) or rejects (\<open>Inl\<close>). \<^verbatim>\<open>await\<close> in
  sequence is \<open>io_bind\<close>; \<^verbatim>\<open>try { ... } catch\<close> is \<open>io_catch\<close>.
\<close>

type_synonym ('a, 's) io = "'s \<Rightarrow> (thrown + 'a) \<times> 's"

definition io_return :: "'a \<Rightarrow> ('a, 's) io" where
  "io_return a s = (Inr a, s)"

definition io_throw :: "thrown \<Rightarrow> ('a, 's) io" where
  "io_throw e s = (Inl e, s)"

definition io_bind :: "('a, 's) io \<Rightarrow> ('a \<Rightarrow> ('b, 's) io) \<Rightarrow> ('b, 's) io" where
  "io_bind m f s = (case m s of (Inl e, s') \<Rightarrow> (Inl e, s') | (Inr a, s') \<Rightarrow> f a s')"

definition io_catch :: "('a, 's) io \<Rightarrow> (thrown \<Rightarrow> ('a, 's) io) \<Rightarrow> ('a, 's) io" where
  "io_catch m h s = (case m s of (Inl e, s') \<Rightarrow> h e s' | (Inr a, s') \<Rightarrow> (Inr a, s'))"


section \<open>Raw SQL adapter (src/adapters/sql.ts)\<close>

subsection \<open>Text of the statements\<close>

text \<open>
  \<open>show_nat\<close> is what a template literal prints for the placeholder index, a counter
  that starts at 1 and grows by one for each placeholder.
\<close>

definition digit_char :: "nat \<Rightarrow> char" where
  "digit_char n = ''0123456789'' ! n"

fun show_nat :: "nat \<Rightarrow> string" where
  "show_nat n = (if n < 10 then [digit_char n] else show_nat (n div 10) @ [digit_char (n mod 10)])"

declare show_nat.simps [simp del]


fun join :: "string \<Rightarrow> string list \<Rightarrow> string" where
  "join sep [] = []"
| "join sep [x] = x"
| "join sep (x # y # ys) = x @ sep @ join sep (y # ys)"

subsection \<open>Executor and configuration\<close>

text \<open>
  Values that travel in the \<open>params\<close> array and in result rows. \<open>SIso t\<close> stands for
  the string \<^verbatim>\<open>d.toISOString()\<close> of the valid date with time value \<open>t\<close>.
\<close>

datatype sql_value = SNull | SText string | SNum int | SIso int | SJson "(string \<times> json) list"

type_synonym sql_row = "(string \<times> sql_value) list"

record 's SQLExecutor =
  query :: "string \<Rightarrow> sql_value list \<Rightarrow> (sql_row list, 's) io"
  execute :: "string \<Rightarrow> sql_value list \<Rightarrow> (int, 's) io"

datatype dialect = Postgres | Mysql | Sqlite

record 's SQLAdapterConfig =
  executor :: "'s SQLExecutor"
  tableName :: "string option"
  dialect :: dialect

definition table_name :: "'s SQLAdapterConfig \<Rightarrow> string" where
  "table_name config = (case tableName config of None \<Rightarrow> ''error_logs'' | Some t \<Rightarrow> t)"

fun ph :: "dialect \<Rightarrow> nat \<Rightarrow> string" where
  "ph Postgres index = CHR ''$'' # show_nat index"
| "ph Mysql index = ''?''"
| "ph Sqlite index = ''?''"

text \<open>\<^verbatim>\<open>toISOString()\<close> throws a RangeError on an Invalid Date.\<close>

fun toISOString :: "js_date \<Rightarrow> thrown + sql_value" where
  "toISOString (Date t) = Inr (SIso t)"
| "toISOString InvalidDate = Inl (Err ''Invalid time value'')"

subsection \<open>findById, delete\<close>

definition findById_sql :: "dialect \<Rightarrow> string \<Rightarrow> string" where
  "findById_sql d t = ''SELECT * FROM '' @ t @ '' WHERE id = '' @ ph d 1"

definition delete_sql :: "dialect \<Rightarrow> string \<Rightarrow> string" where
  "delete_sql d t = ''DELETE FROM '' @ t @ '' WHERE id = '' @ ph d 1"

text \<open>
  \<^verbatim>\<open>toCamelCase\<close> copies the columns of a row under the application's names;
  a missing column reads as \<^verbatim>\<open>undefined\<close> (\<open>None\<close>). \<open>createdAt\<close> is
  \<^verbatim>\<open>new Date(row.created_at)\<close>, kept as the cell it is built from.
\<close>

definition toCamelCase :: "sql_row \<Rightarrow> (string \<times> sql_value option) list" where
  "toCamelCase row =
     [(''id'', map_of row ''id''),
      (''level'', map_of row ''level''),
      (''message'', map_of row ''message''),
      (''stack'', map_of row ''stack''),
      (''userId'', map_of row ''user_id''),
      (''userEmail'', map_of row ''user_email''),
      (''userName'', map_of row ''user_name''),
      (''path'', map_of row ''path''),
      (''method'', map_of row ''method''),
      (''userAgent'', map_of row ''user_agent''),
      (''ip'', map_of row ''ip''),
      (''metadata'', map_of row ''metadata''),
      (''createdAt'', map_of row ''created_at'')]"

definition sql_findById ::
  "'s SQLAdapterConfig \<Rightarrow> string \<Rightarrow> ((string \<times> sql_value option) list option, 's) io" where
  "sql_findById config ident =
     io_bind (query (executor config) (findById_sql (dialect config) (table_name config)) [SText ident])
       (\<lambda>rows. case rows of [] \<Rightarrow> io_return None | r # _ \<Rightarrow> io_return (Some (toCamelCase r)))"

definition sql_delete :: "'s SQLAdapterConfig \<Rightarrow> string \<Rightarrow> (unit, 's) io" where
  "sql_delete config ident =
     io_bind (execute (executor config) (delete_sql (dialect config) (table_name config)) [SText ident])
       (\<lambda>_. io_return ())"

subsection \<open>findMany\<close>

text \<open>
  The three locals \<^verbatim>\<open>conditions\<close>, \<^verbatim>\<open>params\<close> and \<^verbatim>\<open>paramIndex\<close>
  of \<^verbatim>\<open>findMany\<close> and \<^verbatim>\<open>deleteMany\<close>. \<open>add_cond\<close> is the repeated pair
  \<^verbatim>\<open>conditions.push(`lhs ${ph(paramIndex++)}`); params.push(v)\<close>.
\<close>

type_synonym builder = "string list \<times> sql_value list \<times> nat"

definition add_cond :: "dialect \<Rightarrow> string \<Rightarrow> sql_value \<Rightarrow> builder \<Rightarrow> builder" where
  "add_cond d lhs v b =
     (case b of (conditions, params, paramIndex) \<Rightarrow>
        (conditions @ [lhs @ ph d paramIndex], params @ [v], paramIndex + 1))"



definition add_date :: "dialect \<Rightarrow> string \<Rightarrow> js_date option \<Rightarrow> builder \<Rightarrow> thrown + builder" where
  "add_date d lhs x b =
     (case x of
        None \<Rightarrow> Inr b
      | Some dt \<Rightarrow> (case toISOString dt of Inl e \<Rightarrow> Inl e | Inr v \<Rightarrow> Inr (add_cond d lhs v b)))"

text \<open>The five \<^verbatim>\<open>if\<close> statements of \<^verbatim>\<open>findMany\<close>, in the order of the source.\<close>

definition if_level :: "dialect \<Rightarrow> LogLevel option \<Rightarrow> builder \<Rightarrow> builder" where
  "if_level d level b =
     (case level of None \<Rightarrow> b | Some l \<Rightarrow> add_cond d ''level = '' (SText (level_str l)) b)"



















subsection \<open>deleteMany\<close>

definition deleteMany_conditions :: "dialect \<Rightarrow> LogLevel DeleteManyOptions \<Rightarrow> thrown + builder" where
  "deleteMany_conditions d options =
     (case add_date d ''created_at < '' (d_before options) ([], [], 1) of
        Inl e \<Rightarrow> Inl e
      | Inr b1 \<Rightarrow> Inr (if_level d (d_level options) b1))"

definition sql_deleteMany :: "'s SQLAdapterConfig \<Rightarrow> LogLevel DeleteManyOptions \<Rightarrow> (int, 's) io" where
  "sql_deleteMany config options =
     (case deleteMany_conditions (dialect config) options of
        Inl e \<Rightarrow> io_throw e
      | Inr (conditions, params, paramIndex) \<Rightarrow>
          if conditions = [] then io_return 0
          else execute (executor config)
                 (''DELETE FROM '' @ table_name config @ '' WHERE '' @ join '' AND '' conditions)
                 params)"

section \<open>Prisma adapter (src/adapters/prisma.ts)\<close>

text \<open>
  The \<^verbatim>\<open>where\<close> object handed to the Prisma client. An absent key is \<open>None\<close>.
  An element \<open>(f, x)\<close> of \<open>w_OR\<close> is \<^verbatim>\<open>{ f: { contains: x, mode: 'insensitive' } }\<close>.
\<close>

datatype text_field = FieldMessage | FieldStack | FieldPath | FieldUserEmail

record createdAt_filter =
  f_gte :: "js_date option"
  f_lte :: "js_date option"
  f_lt :: "js_date option"

record prisma_where =
  w_level :: "LogLevel option"
  w_userId :: "string option"
  w_OR :: "(text_field \<times> string) list option"
  w_createdAt :: "createdAt_filter option"

definition empty_where :: prisma_where where
  "empty_where = \<lparr>w_level = None, w_userId = None, w_OR = None, w_createdAt = None\<rparr>"

text \<open>
  \<^verbatim>\<open>PrismaClientLike\<close>: the \<^verbatim>\<open>errorLog\<close> delegate. Rows are whatever the client
  returns (\<^verbatim>\<open>unknown\<close>, cast by the adapter), so their type is a parameter.
  \<open>errorLog_findMany w ob skip take\<close> is
  \<^verbatim>\<open>findMany({ where: w, orderBy: ob, skip, take })\<close>.
\<close>

record ('e, 'n, 's) PrismaClientLike =
  errorLog_findMany :: "prisma_where \<Rightarrow> order_by \<times> order_dir \<Rightarrow> 'n \<Rightarrow> 'n \<Rightarrow> ('e list, 's) io"
  errorLog_findUnique :: "string \<Rightarrow> ('e option, 's) io"
  errorLog_delete :: "string \<Rightarrow> ('e, 's) io"
  errorLog_deleteMany :: "prisma_where \<Rightarrow> (int, 's) io"
  errorLog_count :: "prisma_where \<Rightarrow> (int, 's) io"

definition present :: "'a option \<Rightarrow> bool" where
  "present x = (case x of None \<Rightarrow> False | Some _ \<Rightarrow> True)"



definition prisma_findById :: "('e, 'n, 's) PrismaClientLike \<Rightarrow> string \<Rightarrow> ('e option, 's) io" where
  "prisma_findById prisma ident =
     io_bind (errorLog_findUnique prisma ident) (\<lambda>result. io_return result)"

definition prisma_delete :: "('e, 'n, 's) PrismaClientLike \<Rightarrow> string \<Rightarrow> (unit, 's) io" where
  "prisma_delete prisma ident = io_bind (errorLog_delete prisma ident) (\<lambda>_. io_return ())"

definition prisma_deleteMany_where :: "LogLevel DeleteManyOptions \<Rightarrow> prisma_where" where
  "prisma_deleteMany_where options =
     (let w1 = (case d_before options of
                  None \<Rightarrow> empty_where
                | Some b \<Rightarrow>
                    empty_where\<lparr>w_createdAt := Some \<lparr>f_gte = None, f_lte = None, f_lt = Some b\<rparr>\<rparr>)
      in case d_level options of None \<Rightarrow> w1 | Some l \<Rightarrow> w1\<lparr>w_level := Some l\<rparr>)"

definition prisma_deleteMany ::
  "('e, 'n, 's) PrismaClientLike \<Rightarrow> LogLevel DeleteManyOptions \<Rightarrow> (int, 's) io" where
  "prisma_deleteMany prisma options =
     io_bind (errorLog_deleteMany prisma (prisma_deleteMany_where options))
       (\<lambda>result_count. io_return result_count)"

section \<open>Drizzle adapter (src/adapters/drizzle.ts)\<close>

text \<open>
  The columns of the caller's table and the condition objects the caller's operators
  (\<^verbatim>\<open>eq, and, or, like, lt, gte, lte, desc, asc\<close>) build. A condition object is
  truthy.
\<close>

datatype column =
  ColId | ColLevel | ColUserId | ColMessage | ColStack | ColPath | ColUserEmail | ColCreatedAt

datatype drizzle_value = DText string | DLevel LogLevel | DDate js_date

datatype condition =
  Eq column drizzle_value
| And "condition list"
| Or "condition list"
| Like column string
| Lt column drizzle_value
| Gte column drizzle_value
| Lte column drizzle_value

datatype ordering = Desc column | Asc column

text \<open>
  The three query shapes the adapter builds on \<^verbatim>\<open>db\<close>:
  \<open>db_select w ob limit offset\<close> is
  \<^verbatim>\<open>db.select().from(table)[.where(w)][.orderBy(ob)].limit(limit).offset(offset)\<close>,
  \<open>db_count w\<close> is \<^verbatim>\<open>db.$count(table, w)\<close>, and \<open>db_delete w\<close> is
  \<^verbatim>\<open>db.delete(table).where(w)\<close>, which resolves with the result's
  \<^verbatim>\<open>rowCount\<close> (possibly \<^verbatim>\<open>undefined\<close>).
\<close>

record ('e, 'n, 's) DrizzleDB =
  db_select :: "condition option \<Rightarrow> ordering option \<Rightarrow> 'n \<Rightarrow> 'n \<Rightarrow> ('e list, 's) io"
  db_count :: "condition option \<Rightarrow> (int, 's) io"
  db_delete :: "condition \<Rightarrow> (int option, 's) io"


definition whereCondition :: "condition list \<Rightarrow> condition option" where
  "whereCondition conditions = (if conditions \<noteq> [] then Some (And conditions) else None)"



definition drizzle_findById ::
  "'n JsNumbers \<Rightarrow> ('e, 'n, 's) DrizzleDB \<Rightarrow> string \<Rightarrow> ('e option, 's) io" where
  "drizzle_findById num db ident =
     io_bind (db_select db (Some (Eq ColId (DText ident))) None (num_literal num 1) (num_literal num 0))
       (\<lambda>results. io_return (case results of [] \<Rightarrow> None | r # _ \<Rightarrow> Some r))"

definition drizzle_delete :: "('e, 'n, 's) DrizzleDB \<Rightarrow> string \<Rightarrow> (unit, 's) io" where
  "drizzle_delete db ident =
     io_bind (db_delete db (Eq ColId (DText ident))) (\<lambda>_. io_return ())"

definition drizzle_deleteMany_conditions :: "LogLevel DeleteManyOptions \<Rightarrow> condition list" where
  "drizzle_deleteMany_conditions options =
     (case d_before options of None \<Rightarrow> [] | Some b \<Rightarrow> [Lt ColCreatedAt (DDate b)]) @
     (case d_level options of None \<Rightarrow> [] | Some l \<Rightarrow> [Eq ColLevel (DLevel l)])"

definition drizzle_deleteMany :: "('e, 'n, 's) DrizzleDB \<Rightarrow> LogLevel DeleteManyOptions \<Rightarrow> (int, 's) io" where
  "drizzle_deleteMany db options =
     (case whereCondition (drizzle_deleteMany_conditions options) of
        None \<Rightarrow> io_return 0
      | Some w \<Rightarrow>
          io_bind (db_delete db w)
            (\<lambda>rowCount. io_return (case rowCount of None \<Rightarrow> 0 | Some n \<Rightarrow> n)))"

section \<open>Logger facade (src/logger.ts)\<close>

subsection \<open>Entries, configuration, process state\<close>

text \<open>\<^verbatim>\<open>Omit<ErrorLogEntry, 'id' | 'createdAt'>\<close>, then the stored entry.\<close>

record NewEntry =
  n_level :: LogLevel
  n_message :: string
  n_stack :: "string option"
  n_userId :: "string option"
  n_userEmail :: "string option"
  n_userName :: "string option"
  n_path :: "string option"
  n_method :: "string option"
  n_userAgent :: "string option"
  n_ip :: "string option"
  n_metadata :: "(string \<times> json) list option"

record ErrorLogEntry = NewEntry +
  e_id :: string
  e_createdAt :: js_date

record RequestContext =
  c_path :: "string option"
  c_method :: "string option"
  c_userAgent :: "string option"
  c_ip :: "string option"
  c_metadata :: "(string \<times> json) list option"

record User =
  u_id :: string
  u_email :: "string option"
  u_name :: "string option"

text \<open>An \<^verbatim>\<open>Error\<close> object passed to the logger: its message and its stack.\<close>

datatype js_Error = JsError string "string option"

fun stack_of :: "js_Error \<Rightarrow> string option" where
  "stack_of (JsError m st) = st"

record LogResult =
  success :: bool
  entry :: "ErrorLogEntry option"
  error :: "string option"

record ('n, 's) DatabaseAdapter =
  create :: "NewEntry \<Rightarrow> (ErrorLogEntry, 's) io"
  findMany :: "'n QueryOptions \<Rightarrow> (ErrorLogEntry FindManyResult, 's) io"
  findById :: "string \<Rightarrow> (ErrorLogEntry option, 's) io"
  delete :: "string \<Rightarrow> (unit, 's) io"
  deleteMany :: "json DeleteManyOptions \<Rightarrow> (int, 's) io"

record 's AuthAdapter =
  getUser :: "(User option, 's) io"

record ('n, 's) ErrorLoggerConfig =
  adapter :: "('n, 's) DatabaseAdapter"
  authAdapter :: "'s AuthAdapter option"
  retentionDays :: "int option"
  levels :: "LogLevel list option"
  consoleInDev :: "bool option"

datatype console_method = ConsoleError | ConsoleWarn | ConsoleLog

datatype console_arg =
  ArgText string | ArgError js_Error | ArgContext RequestContext | ArgThrown thrown

text \<open>
  The state of the running process: the module variable \<^verbatim>\<open>config\<close>, the state
  behind the adapters, what was written to the console, and
  \<^verbatim>\<open>process.env.NODE_ENV\<close>.
\<close>

record ('n, 's) process =
  config :: "('n, 's) ErrorLoggerConfig option"
  store :: 's
  console :: "(console_method \<times> console_arg list) list"
  NODE_ENV :: "string option"

definition on_store :: "('a, 's) io \<Rightarrow> ('a, ('n, 's) process) io" where
  "on_store m p = (case m (store p) of (r, s') \<Rightarrow> (r, p\<lparr>store := s'\<rparr>))"

definition console_call :: "console_method \<Rightarrow> console_arg list \<Rightarrow> (unit, ('n, 's) process) io" where
  "console_call m args p = (Inr (), p\<lparr>console := console p @ [(m, args)]\<rparr>)"

definition initErrorLogger :: "('n, 's) ErrorLoggerConfig \<Rightarrow> ('n, 's) process \<Rightarrow> ('n, 's) process" where
  "initErrorLogger cfg p =
     p\<lparr>config := Some (cfg\<lparr>
          consoleInDev := (case consoleInDev cfg of None \<Rightarrow> Some True | Some b \<Rightarrow> Some b),
          retentionDays := (case retentionDays cfg of None \<Rightarrow> Some 30 | Some n \<Rightarrow> Some n)\<rparr>)\<rparr>"

definition not_initialized :: string where
  "not_initialized =
     ''[@vinetechke/next-error-logger] Logger not initialized. Call initErrorLogger() first.''"

definition getConfig :: "(('n, 's) ErrorLoggerConfig, ('n, 's) process) io" where
  "getConfig p = (case config p of None \<Rightarrow> (Inl (Err not_initialized), p) | Some cfg \<Rightarrow> (Inr cfg, p))"

definition isInitialized :: "('n, 's) process \<Rightarrow> bool" where
  "isInitialized p = (config p \<noteq> None)"

subsection \<open>log\<close>

text \<open>\<^verbatim>\<open>x || null\<close> on an optional string: absent and empty both give null.\<close>

definition or_null :: "string option \<Rightarrow> string option" where
  "or_null x = (case x of None \<Rightarrow> None | Some s \<Rightarrow> if s = [] then None else Some s)"

fun level_upper :: "LogLevel \<Rightarrow> string" where
  "level_upper LevelError = ''ERROR''"
| "level_upper LevelWarn = ''WARN''"
| "level_upper LevelInfo = ''INFO''"
| "level_upper LevelDebug = ''DEBUG''"

definition consoleMethod :: "LogLevel \<Rightarrow> console_method" where
  "consoleMethod level =
     (if level = LevelError then ConsoleError
      else if level = LevelWarn then ConsoleWarn else ConsoleLog)"

definition console_in_dev ::
  "('n, 's) ErrorLoggerConfig \<Rightarrow> LogLevel \<Rightarrow> string \<Rightarrow> js_Error option \<Rightarrow> RequestContext option
     \<Rightarrow> (unit, ('n, 's) process) io" where
  "console_in_dev cfg level message err context p =
     (if consoleInDev cfg = Some True \<and> NODE_ENV p = Some ''development''
      then console_call (consoleMethod level)
             [ArgText (''['' @ level_upper level @ '']''), ArgText message,
              (case err of None \<Rightarrow> ArgText [] | Some e \<Rightarrow> ArgError e),
              (case context of None \<Rightarrow> ArgText [] | Some c \<Rightarrow> ArgContext c)] p
      else (Inr (), p))"

text \<open>The auth step: a failure of \<^verbatim>\<open>getUser\<close> leaves \<open>user\<close> at null.\<close>

definition get_user :: "('n, 's) ErrorLoggerConfig \<Rightarrow> (User option, ('n, 's) process) io" where
  "get_user cfg =
     (case authAdapter cfg of
        None \<Rightarrow> io_return None
      | Some a \<Rightarrow> io_catch (on_store (getUser a)) (\<lambda>_. io_return None))"

definition context_field ::
  "(RequestContext \<Rightarrow> string option) \<Rightarrow> RequestContext option \<Rightarrow> string option" where
  "context_field f context = (case context of None \<Rightarrow> None | Some c \<Rightarrow> or_null (f c))"

definition context_metadata :: "RequestContext option \<Rightarrow> (string \<times> json) list option" where
  "context_metadata context = (case context of None \<Rightarrow> None | Some c \<Rightarrow> c_metadata c)"

definition error_message :: "thrown \<Rightarrow> string" where
  "error_message e = (case e of Err m \<Rightarrow> m | NonError _ \<Rightarrow> ''Unknown error'')"

definition log ::
  "LogLevel \<Rightarrow> string \<Rightarrow> js_Error option \<Rightarrow> RequestContext option \<Rightarrow> (LogResult, ('n, 's) process) io" where
  "log level message err context =
     io_catch
       (io_bind getConfig (\<lambda>cfg.
          if (case levels cfg of None \<Rightarrow> False | Some ls \<Rightarrow> level \<notin> set ls)
          then io_return \<lparr>success = True, entry = None, error = None\<rparr>
          else
            io_bind (console_in_dev cfg level message err context) (\<lambda>_.
            io_bind (get_user cfg) (\<lambda>user.
            io_bind
              (on_store (create (adapter cfg)
                 \<lparr>n_level = level,
                  n_message = message,
                  n_stack = (case err of None \<Rightarrow> None | Some e \<Rightarrow> or_null (stack_of e)),
                  n_userId = (case user of None \<Rightarrow> None | Some u \<Rightarrow> or_null (Some (u_id u))),
                  n_userEmail = (case user of None \<Rightarrow> None | Some u \<Rightarrow> or_null (u_email u)),
                  n_userName = (case user of None \<Rightarrow> None | Some u \<Rightarrow> or_null (u_name u)),
                  n_path = context_field c_path context,
                  n_method = context_field c_method context,
                  n_userAgent = context_field c_userAgent context,
                  n_ip = context_field c_ip context,
                  n_metadata = context_metadata context\<rparr>))
              (\<lambda>created. io_return \<lparr>success = True, entry = Some created, error = None\<rparr>)))))
       (\<lambda>e.
          io_bind
            (console_call ConsoleError
               [ArgText ''[@vinetechke/next-error-logger] Failed to log:'', ArgThrown e])
            (\<lambda>_. io_return \<lparr>success = False, entry = None, error = Some (error_message e)\<rparr>))"

subsection \<open>Requests and the three calling conventions\<close>

text \<open>
  What the package reads of a \<^verbatim>\<open>Request\<close>: the path of its URL, its method, its
  headers (\<^verbatim>\<open>headers.get\<close> gives null for an absent name), and what
  \<^verbatim>\<open>request.json()\<close> settles to: the parsed body, or a rejection when the body is
  missing or is not JSON.
\<close>

record Request =
  r_pathname :: string
  r_method :: string
  r_headers :: "(string \<times> string) list"
  r_json :: "thrown + json"

text \<open>
  A header value is a byte string: \<^verbatim>\<open>headers.get\<close> gives one code unit below 256
  for each byte. Of the white space and line terminators that
  \<^verbatim>\<open>String.prototype.trim\<close> strips, those below 256 are TAB, LF, VT, FF, CR, the
  space and the no-break space U+00A0.
\<close>

definition is_space :: "char \<Rightarrow> bool" where
  "is_space c =
     (c = CHR 0x09 \<or> c = CHR 0x0A \<or> c = CHR 0x0B \<or> c = CHR 0x0C \<or> c = CHR 0x0D \<or>
      c = CHR 0x20 \<or> c = CHR 0xA0)"

definition trim :: "string \<Rightarrow> string" where
  "trim x = rev (dropWhile is_space (rev (dropWhile is_space x)))"

text \<open>\<^verbatim>\<open>x.split(',')[0]\<close>: the text before the first comma.\<close>

definition split_first :: "string \<Rightarrow> string" where
  "split_first x = takeWhile (\<lambda>c. c \<noteq> CHR '','') x"

definition extractRequestContext :: "Request \<Rightarrow> RequestContext" where
  "extractRequestContext request =
     \<lparr>c_path = Some (r_pathname request),
      c_method = Some (r_method request),
      c_userAgent = or_null (map_of (r_headers request) ''user-agent''),
      c_ip =
        (case or_null (map_option (\<lambda>x. trim (split_first x))
                         (map_of (r_headers request) ''x-forwarded-for'')) of
           Some a \<Rightarrow> Some a
         | None \<Rightarrow> or_null (map_of (r_headers request) ''x-real-ip'')),
      c_metadata = None\<rparr>"

definition errorLogger_error ::
  "string \<Rightarrow> js_Error option \<Rightarrow> RequestContext option \<Rightarrow> (LogResult, ('n, 's) process) io" where
  "errorLogger_error message err context = log LevelError message err context"

definition errorLogger_warn ::
  "string \<Rightarrow> js_Error option \<Rightarrow> RequestContext option \<Rightarrow> (LogResult, ('n, 's) process) io" where
  "errorLogger_warn message err context = log LevelWarn message err context"

definition errorLogger_info :: "string \<Rightarrow> RequestContext option \<Rightarrow> (LogResult, ('n, 's) process) io" where
  "errorLogger_info message context = log LevelInfo message None context"

definition errorLogger_debug :: "string \<Rightarrow> RequestContext option \<Rightarrow> (LogResult, ('n, 's) process) io" where
  "errorLogger_debug message context = log LevelDebug message None context"

definition fromRequest_error ::
  "Request \<Rightarrow> string \<Rightarrow> js_Error option \<Rightarrow> (string \<times> json) list option
     \<Rightarrow> (LogResult, ('n, 's) process) io" where
  "fromRequest_error request message err metadata =
     log LevelError message err (Some ((extractRequestContext request)\<lparr>c_metadata := metadata\<rparr>))"

definition fromRequest_warn ::
  "Request \<Rightarrow> string \<Rightarrow> (string \<times> json) list option \<Rightarrow> (LogResult, ('n, 's) process) io" where
  "fromRequest_warn request message metadata =
     log LevelWarn message None (Some ((extractRequestContext request)\<lparr>c_metadata := metadata\<rparr>))"

definition fromRequest_info ::
  "Request \<Rightarrow> string \<Rightarrow> (string \<times> json) list option \<Rightarrow> (LogResult, ('n, 's) process) io" where
  "fromRequest_info request message metadata =
     log LevelInfo message None (Some ((extractRequestContext request)\<lparr>c_metadata := metadata\<rparr>))"

definition fromRequest_debug ::
  "Request \<Rightarrow> string \<Rightarrow> (string \<times> json) list option \<Rightarrow> (LogResult, ('n, 's) process) io" where
  "fromRequest_debug request message metadata =
     log LevelDebug message None (Some ((extractRequestContext request)\<lparr>c_metadata := metadata\<rparr>))"

text \<open>
  \<^verbatim>\<open>withUser(user)\<close> offers \<open>error\<close>, \<open>warn\<close> and \<open>info\<close>. The three bodies
  are the same text but for the level and the stack, written once here:
  \<^verbatim>\<open>getConfig()\<close> first, then \<^verbatim>\<open>try { create } catch { success: false }\<close>.
\<close>

definition withUser_body ::
  "User \<Rightarrow> LogLevel \<Rightarrow> string \<Rightarrow> string option \<Rightarrow> RequestContext option
     \<Rightarrow> (LogResult, ('n, 's) process) io" where
  "withUser_body user level message stack context =
     io_bind getConfig (\<lambda>cfg.
       io_catch
         (io_bind
            (on_store (create (adapter cfg)
               \<lparr>n_level = level,
                n_message = message,
                n_stack = stack,
                n_userId = Some (u_id user),
                n_userEmail = or_null (u_email user),
                n_userName = or_null (u_name user),
                n_path = context_field c_path context,
                n_method = context_field c_method context,
                n_userAgent = context_field c_userAgent context,
                n_ip = context_field c_ip context,
                n_metadata = context_metadata context\<rparr>))
            (\<lambda>created. io_return \<lparr>success = True, entry = Some created, error = None\<rparr>))
         (\<lambda>e. io_return \<lparr>success = False, entry = None, error = Some (error_message e)\<rparr>))"

definition withUser_error ::
  "User \<Rightarrow> string \<Rightarrow> js_Error option \<Rightarrow> RequestContext option \<Rightarrow> (LogResult, ('n, 's) process) io" where
  "withUser_error user message err context =
     withUser_body user LevelError message
       (case err of None \<Rightarrow> None | Some e \<Rightarrow> or_null (stack_of e)) context"

definition withUser_warn ::
  "User \<Rightarrow> string \<Rightarrow> RequestContext option \<Rightarrow> (LogResult, ('n, 's) process) io" where
  "withUser_warn user message context = withUser_body user LevelWarn message None context"

definition withUser_info ::
  "User \<Rightarrow> string \<Rightarrow> RequestContext option \<Rightarrow> (LogResult, ('n, 's) process) io" where
  "withUser_info user message context = withUser_body user LevelInfo message None context"

section \<open>HTTP handlers (src/api/index.ts)\<close>

text \<open>\<^verbatim>\<open>NextResponse.json(body, { status })\<close>; the status defaults to 200.\<close>

record Response =
  status :: nat
  body :: json

definition json_error :: "string \<Rightarrow> nat \<Rightarrow> Response" where
  "json_error msg st = \<lparr>status = st, body = JObj [(''error'', JStr msg)]\<rparr>"

text \<open>
  Reading a property of a parsed body: on \<^verbatim>\<open>null\<close> it throws a TypeError, on an
  object it gives the member or \<^verbatim>\<open>undefined\<close>, and no string, number, boolean or
  array has a property called \<open>before\<close> or \<open>level\<close>.
\<close>

fun get_property :: "json \<Rightarrow> string \<Rightarrow> thrown + json option" where
  "get_property JNull k = Inl (Err (''Cannot read properties of null (reading '' @ k @ '')''))"
| "get_property (JObj members) k = Inr (map_of members k)"
| "get_property other k = Inr None"

fun truthy_json :: "json \<Rightarrow> bool" where
  "truthy_json JNull = False"
| "truthy_json (JBool b) = b"
| "truthy_json (JNum n) = (n \<noteq> 0)"
| "truthy_json (JStr x) = (x \<noteq> [])"
| "truthy_json (JArr xs) = True"
| "truthy_json (JObj members) = True"

text \<open>
  The options object of the delete-many handler. \<open>newDate\<close> is the platform's
  \<^verbatim>\<open>new Date(value)\<close>.
\<close>

definition delete_options ::
  "(json \<Rightarrow> js_date) \<Rightarrow> json \<Rightarrow> thrown + json DeleteManyOptions" where
  "delete_options newDate parsed =
     (case get_property parsed ''before'' of
        Inl e \<Rightarrow> Inl e
      | Inr before \<Rightarrow>
          (case get_property parsed ''level'' of
             Inl e \<Rightarrow> Inl e
           | Inr lvl \<Rightarrow>
               Inr \<lparr>d_before =
                      (case before of
                         None \<Rightarrow> None
                       | Some v \<Rightarrow> if truthy_json v then Some (newDate v) else None),
                    d_level = lvl\<rparr>))"

definition createLogAPIHandlers_DELETE ::
  "(json \<Rightarrow> js_date) \<Rightarrow> (Request \<Rightarrow> (bool, ('n, 's) process) io) \<Rightarrow> Request
     \<Rightarrow> (Response, ('n, 's) process) io" where
  "createLogAPIHandlers_DELETE newDate isAuthorized request =
     io_bind (isAuthorized request) (\<lambda>authorized.
       if \<not> authorized then io_return (json_error ''Unauthorized'' 401)
       else (\<lambda>p.
         if \<not> isInitialized p then io_return (json_error ''Logger not initialized'' 500) p
         else
           io_bind getConfig (\<lambda>cfg.
             io_catch
               (case delete_options newDate
                       (case r_json request of Inl _ \<Rightarrow> JObj [] | Inr parsed \<Rightarrow> parsed) of
                  Inl e \<Rightarrow> io_throw e
                | Inr options \<Rightarrow>
                    io_bind (on_store (deleteMany (adapter cfg) options))
                      (\<lambda>n. io_return \<lparr>status = 200, body = JObj [(''deleted'', JNum n)]\<rparr>))
               (\<lambda>e.
                  io_bind
                    (console_call ConsoleError
                       [ArgText ''[@vinetechke/next-error-logger] API error:'', ArgThrown e])
                    (\<lambda>_. io_return (json_error ''Failed to delete logs'' 500)))) p))"

section \<open>NextAuth adapter (src/auth/next-auth.ts)\<close>

record NextAuthUser =
  s_id :: "string option"
  s_email :: "string option"
  s_name :: "string option"

record NextAuthSession =
  s_user :: "NextAuthUser option"

definition createNextAuthAdapter :: "(NextAuthSession option, 's) io \<Rightarrow> 's AuthAdapter" where
  "createNextAuthAdapter authFn =
     \<lparr>getUser =
        io_catch
          (io_bind authFn (\<lambda>session.
             case session of
               None \<Rightarrow> io_return None
             | Some ses \<Rightarrow>
                 (case s_user ses of
                    None \<Rightarrow> io_return None
                  | Some usr \<Rightarrow>
                      (case or_null (s_id usr) of
                         None \<Rightarrow> io_return None
                       | Some i \<Rightarrow>
                           io_return (Some \<lparr>u_id = i, u_email = or_null (s_email usr),
                                            u_name = or_null (s_name usr)\<rparr>)))))
          (\<lambda>_. io_return None)\<rparr>"

section \<open>Vocabulary of the properties\<close>










text \<open>
  The rows that match the filters of a call. \<open>found x v\<close> says that the text \<open>x\<close>
  searched for is found in the column value \<open>v\<close> (\<open>None\<close> for null); the search
  looks in message, stack, path and userEmail. Dates compare by their time values.
\<close>

fun date_le :: "js_date \<Rightarrow> js_date \<Rightarrow> bool" where
  "date_le (Date a) (Date b) = (a \<le> b)"
| "date_le x y = False"

fun date_lt :: "js_date \<Rightarrow> js_date \<Rightarrow> bool" where
  "date_lt (Date a) (Date b) = (a < b)"
| "date_lt x y = False"




text \<open>The level passes the allow-list of the configuration, or there is none.\<close>

definition captured :: "('n, 's) ErrorLoggerConfig \<Rightarrow> LogLevel \<Rightarrow> bool" where
  "captured cfg level = (case levels cfg of None \<Rightarrow> True | Some ls \<Rightarrow> level \<in> set ls)"

section \<open>Backends used as concrete inputs\<close>

subsection \<open>Sample numbers\<close>

text \<open>
  The sample inputs use safe integers, those between \<open>-(2^53 - 1)\<close> and \<open>2^53 - 1\<close>.
  As long as the operands and the result are safe integers, the platform's subtraction
  and multiplication are the exact ones and a template literal prints the decimal digits.
  \<open>NotSafe\<close> stands for any other number and for the result of an operation that leaves
  the safe integers; the samples track neither its value nor its text, no sample input
  reaches it, and the sample backends reject it. Every sample number is built by
  \<open>safe\<close>.
\<close>

datatype sample_number = SafeInt int | NotSafe







text \<open>\<open>take\<close> rows after skipping \<open>skip\<close>, for counts that are safe integers from 0 on.\<close>

definition window :: "sample_number \<Rightarrow> sample_number \<Rightarrow> 'a list \<Rightarrow> 'a list option" where
  "window skip tk xs =
     (case skip of
        NotSafe \<Rightarrow> None
      | SafeInt s \<Rightarrow>
          (case tk of
             NotSafe \<Rightarrow> None
           | SafeInt t \<Rightarrow> if 0 \<le> s \<and> 0 \<le> t then Some (take (nat t) (drop (nat s) xs)) else None))"

subsection \<open>Sample text matching\<close>

definition lower_char :: "char \<Rightarrow> char" where
  "lower_char c =
     (case map_of (zip ''ABCDEFGHIJKLMNOPQRSTUVWXYZ'' ''abcdefghijklmnopqrstuvwxyz'') c of
        None \<Rightarrow> c
      | Some l \<Rightarrow> l)"

fun starts_with :: "string \<Rightarrow> string \<Rightarrow> bool" where
  "starts_with [] ys = True"
| "starts_with (x # xs) [] = False"
| "starts_with (x # xs) (y # ys) = (x = y \<and> starts_with xs ys)"

fun contains :: "string \<Rightarrow> string \<Rightarrow> bool" where
  "contains xs [] = (xs = [])"
| "contains xs (y # ys) = (starts_with xs (y # ys) \<or> contains xs ys)"

text \<open>Prisma's \<^verbatim>\<open>{ contains: x, mode: 'insensitive' }\<close> on a nullable column.\<close>

definition contains_insensitive :: "string \<Rightarrow> string option \<Rightarrow> bool" where
  "contains_insensitive x v =
     (case v of None \<Rightarrow> False | Some t \<Rightarrow> contains (map lower_char x) (map lower_char t))"



subsection \<open>A Prisma client over a table held in memory\<close>

text \<open>
  The table is a list of entries. The calls behave as Prisma documents them:
  \<^verbatim>\<open>delete\<close> rejects when no record has the id, \<^verbatim>\<open>deleteMany\<close> and
  \<^verbatim>\<open>count\<close> act on the records that match \<^verbatim>\<open>where\<close>, and an empty
  \<^verbatim>\<open>where\<close> matches every record.
\<close>

fun text_of :: "text_field \<Rightarrow> ErrorLogEntry \<Rightarrow> string option" where
  "text_of FieldMessage e = Some (n_message e)"
| "text_of FieldStack e = n_stack e"
| "text_of FieldPath e = n_path e"
| "text_of FieldUserEmail e = n_userEmail e"

definition createdAt_matches :: "createdAt_filter \<Rightarrow> js_date \<Rightarrow> bool" where
  "createdAt_matches c t =
     ((case f_gte c of None \<Rightarrow> True | Some g \<Rightarrow> date_le g t) \<and>
      (case f_lte c of None \<Rightarrow> True | Some l \<Rightarrow> date_le t l) \<and>
      (case f_lt c of None \<Rightarrow> True | Some l \<Rightarrow> date_lt t l))"

definition where_matches :: "prisma_where \<Rightarrow> ErrorLogEntry \<Rightarrow> bool" where
  "where_matches w e =
     ((case w_level w of None \<Rightarrow> True | Some l \<Rightarrow> n_level e = l) \<and>
      (case w_userId w of None \<Rightarrow> True | Some u \<Rightarrow> n_userId e = Some u) \<and>
      (case w_OR w of
         None \<Rightarrow> True
       | Some cs \<Rightarrow> list_ex (\<lambda>fx. contains_insensitive (snd fx) (text_of (fst fx) e)) cs) \<and>
      (case w_createdAt w of None \<Rightarrow> True | Some c \<Rightarrow> createdAt_matches c (e_createdAt e)))"

fun level_rank :: "LogLevel \<Rightarrow> int" where
  "level_rank LevelDebug = 0"
| "level_rank LevelError = 1"
| "level_rank LevelInfo = 2"
| "level_rank LevelWarn = 3"

definition ordered :: "order_by \<times> order_dir \<Rightarrow> ErrorLogEntry list \<Rightarrow> ErrorLogEntry list" where
  "ordered ob rows =
     (let asc = (case fst ob of
                   ByCreatedAt \<Rightarrow> sort_key (\<lambda>e. time_value (e_createdAt e)) rows
                 | ByLevel \<Rightarrow> sort_key (\<lambda>e. level_rank (n_level e)) rows)
      in case snd ob of OrderAsc \<Rightarrow> asc | OrderDesc \<Rightarrow> rev asc)"

definition memory_prisma ::
  "(ErrorLogEntry, sample_number, ErrorLogEntry list) PrismaClientLike" where
  "memory_prisma =
     \<lparr>errorLog_findMany =
        (\<lambda>w ob skip tk rows.
           case window skip tk (ordered ob (filter (where_matches w) rows)) of
             None \<Rightarrow> (Inl (Err ''Invalid value for skip or take''), rows)
           | Some found \<Rightarrow> (Inr found, rows)),
      errorLog_findUnique = (\<lambda>i rows. (Inr (find (\<lambda>e. e_id e = i) rows), rows)),
      errorLog_delete =
        (\<lambda>i rows.
           case find (\<lambda>e. e_id e = i) rows of
             None \<Rightarrow> (Inl (Err ''Record to delete does not exist.''), rows)
           | Some e \<Rightarrow> (Inr e, filter (\<lambda>r. e_id r \<noteq> i) rows)),
      errorLog_deleteMany =
        (\<lambda>w rows.
           (Inr (int (length (filter (where_matches w) rows))),
            filter (\<lambda>r. \<not> where_matches w r) rows)),
      errorLog_count = (\<lambda>w rows. (Inr (int (length (filter (where_matches w) rows))), rows))\<rparr>"

definition sample_entry :: "string \<Rightarrow> LogLevel \<Rightarrow> int \<Rightarrow> ErrorLogEntry" where
  "sample_entry i l t =
     \<lparr>n_level = l, n_message = ''boom'', n_stack = None, n_userId = None, n_userEmail = None,
      n_userName = None, n_path = None, n_method = None, n_userAgent = None, n_ip = None,
      n_metadata = None, e_id = i, e_createdAt = Date t\<rparr>"

subsection \<open>A Drizzle database over a table held in memory\<close>








subsection \<open>An SQL executor over a table held in memory\<close>




















text \<open>
  As the repository's tests do with a mocked executor: \<open>recording_executor\<close> keeps every
  statement it is sent, in order, and answers with no rows and a count of \<open>0\<close>.
\<close>

definition recording_executor :: "(string \<times> sql_value list) list SQLExecutor" where
  "recording_executor =
     \<lparr>query = (\<lambda>sql params sent. (Inr [], sent @ [(sql, params)])),
      execute = (\<lambda>sql params sent. (Inr 0, sent @ [(sql, params)]))\<rparr>"

subsection \<open>A storage adapter over a table held in memory\<close>

definition deletion_matches :: "json DeleteManyOptions \<Rightarrow> ErrorLogEntry \<Rightarrow> bool" where
  "deletion_matches options r =
     ((case d_before options of None \<Rightarrow> True | Some b \<Rightarrow> date_lt (e_createdAt r) b) \<and>
      (case d_level options of None \<Rightarrow> True | Some l \<Rightarrow> l = JStr (level_str (n_level r))))"

definition memory_adapter :: "(sample_number, ErrorLogEntry list) DatabaseAdapter" where
  "memory_adapter =
     \<lparr>create =
        (\<lambda>n rows.
           (let created = NewEntry.extend n
                  (ErrorLogEntry.fields (show_nat (length rows)) (Date (int (length rows))))
            in (Inr created, rows @ [created]))),
      findMany = (\<lambda>options rows. (Inr \<lparr>logs = rows, total = Num (int (length rows))\<rparr>, rows)),
      findById = (\<lambda>i rows. (Inr (find (\<lambda>e. e_id e = i) rows), rows)),
      delete = (\<lambda>i rows. (Inr (), filter (\<lambda>r. e_id r \<noteq> i) rows)),
      deleteMany =
        (\<lambda>options rows.
           if \<not> present (d_before options) \<and> \<not> present (d_level options) then (Inr 0, rows)
           else
             (Inr (int (length (filter (deletion_matches options) rows))),
              filter (\<lambda>r. \<not> deletion_matches options r) rows))\<rparr>"

definition failing_adapter :: "(sample_number, ErrorLogEntry list) DatabaseAdapter" where
  "failing_adapter = memory_adapter\<lparr>create := (\<lambda>n. io_throw (Err ''connection refused''))\<rparr>"

definition failing_auth :: "ErrorLogEntry list AuthAdapter" where
  "failing_auth = \<lparr>getUser = io_throw (Err ''Auth failed'')\<rparr>"

definition fresh_process :: "(sample_number, ErrorLogEntry list) process" where
  "fresh_process = \<lparr>config = None, store = [], console = [], NODE_ENV = Some ''production''\<rparr>"

subsection \<open>Sample inputs\<close>




definition three_rows :: "ErrorLogEntry list" where
  "three_rows =
     [sample_entry ''a'' LevelError 1, sample_entry ''b'' LevelWarn 2, sample_entry ''c'' LevelError 3]"


definition errors_and_warnings_only :: "(sample_number, ErrorLogEntry list) ErrorLoggerConfig" where
  "errors_and_warnings_only =
     \<lparr>adapter = memory_adapter, authAdapter = None, retentionDays = None,
      levels = Some [LevelError, LevelWarn], consoleInDev = None\<rparr>"

definition with_failing_auth :: "(sample_number, ErrorLogEntry list) ErrorLoggerConfig" where
  "with_failing_auth =
     \<lparr>adapter = memory_adapter, authAdapter = Some failing_auth, retentionDays = None,
      levels = None, consoleInDev = None\<rparr>"

definition with_failing_adapter :: "(sample_number, ErrorLogEntry list) ErrorLoggerConfig" where
  "with_failing_adapter =
     \<lparr>adapter = failing_adapter, authAdapter = None, retentionDays = None,
      levels = None, consoleInDev = None\<rparr>"

definition sample_user :: User where
  "sample_user = \<lparr>u_id = ''u1'', u_email = Some ''u1@example.com'', u_name = None\<rparr>"

definition sample_request :: Request where
  "sample_request =
     \<lparr>r_pathname = ''/api/orders'', r_method = ''POST'', r_headers = [], r_json = Inl (Err ''no body'')\<rparr>"

definition delete_request :: "thrown + json \<Rightarrow> Request" where
  "delete_request parsed =
     \<lparr>r_pathname = ''/api/logs'', r_method = ''DELETE'', r_headers = [], r_json = parsed\<rparr>"

definition date_of_number :: "json \<Rightarrow> js_date" where
  "date_of_number v = (case v of JNum t \<Rightarrow> Date t | _ \<Rightarrow> InvalidDate)"

section \<open>Raw SQL adapter: the text of the statements\<close>

lemma show_nat_digit: "n < 10 \<Longrightarrow> show_nat n = [digit_char n]"
  by (simp add: show_nat.simps)









text \<open>
  C8. The query a \<^verbatim>\<open>findById\<close> call sends carries the placeholder of the configured
  dialect: \<^verbatim>\<open>$1\<close> for postgres, \<^verbatim>\<open>?\<close> for mysql and for sqlite. The last
  conjunct reads the text off an executor that records what it is sent.
\<close>

theorem findById_placeholder_by_dialect:
  "findById_sql Postgres t = ''SELECT * FROM '' @ t @ '' WHERE id = $1'' \<and>
   findById_sql Mysql t = ''SELECT * FROM '' @ t @ '' WHERE id = ?'' \<and>
   findById_sql Sqlite t = ''SELECT * FROM '' @ t @ '' WHERE id = ?'' \<and>
   sql_findById (cfg\<lparr>executor := recording_executor\<rparr>) i sent =
     (Inr None, sent @ [(findById_sql (dialect cfg) (table_name cfg), [SText i])])"
  by (simp add: findById_sql_def show_nat_digit digit_char_def sql_findById_def
      recording_executor_def io_bind_def io_return_def table_name_def)



section \<open>deleteMany without a filter\<close>

text \<open>
  The raw SQL adapter and the Drizzle adapter return \<open>0\<close> and leave the backend as it
  was, whatever the executor or database: no statement reaches it.
\<close>

lemma sql_deleteMany_no_filter:
  "sql_deleteMany cfg \<lparr>d_before = None, d_level = None\<rparr> s = (Inr 0, s)"
  by (simp add: sql_deleteMany_def deleteMany_conditions_def add_date_def if_level_def io_return_def)

lemma sql_deleteMany_no_filter_nothing_sent:
  "sql_deleteMany (cfg\<lparr>executor := recording_executor\<rparr>) \<lparr>d_before = None, d_level = None\<rparr> sent =
     (Inr 0, sent)"
  by (rule sql_deleteMany_no_filter)

lemma drizzle_deleteMany_no_filter:
  "drizzle_deleteMany db \<lparr>d_before = None, d_level = None\<rparr> s = (Inr 0, s)"
  by (simp add: drizzle_deleteMany_def drizzle_deleteMany_conditions_def whereCondition_def
      io_return_def)

text \<open>
  The Prisma adapter has no such guard: it hands the client an empty \<^verbatim>\<open>where\<close> and
  returns the client's count.
\<close>

lemma prisma_deleteMany_no_filter_calls_client:
  "prisma_deleteMany prisma \<lparr>d_before = None, d_level = None\<rparr> s =
     errorLog_deleteMany prisma empty_where s"
  by (cases "errorLog_deleteMany prisma empty_where s")
     (auto simp: prisma_deleteMany_def prisma_deleteMany_where_def io_bind_def io_return_def
      split: sum.splits)

text \<open>
  C1. The claim (no deletion and the result \<open>0\<close> for every adapter) fails for the Prisma
  adapter: against a Prisma client over any table, \<^verbatim>\<open>deleteMany({})\<close> deletes every
  row and returns their number.
\<close>

theorem prisma_deleteMany_no_filter_deletes_every_row:
  "prisma_deleteMany memory_prisma \<lparr>d_before = None, d_level = None\<rparr> rows =
     (Inr (int (length rows)), [])"
  by (simp add: prisma_deleteMany_def memory_prisma_def prisma_deleteMany_where_def
      empty_where_def where_matches_def io_bind_def io_return_def)

section \<open>delete of an id that is not there\<close>

text \<open>
  Each adapter sends one delete for the id and adds no failure of its own: it resolves
  when the backend's call resolves and rejects with the backend's error otherwise.
\<close>

lemma sql_delete_passes_through:
  "sql_delete cfg i s =
     (case execute (executor cfg) (delete_sql (dialect cfg) (table_name cfg)) [SText i] s of
        (Inl e, s') \<Rightarrow> (Inl e, s') | (Inr n, s') \<Rightarrow> (Inr (), s'))"
  by (simp add: sql_delete_def io_bind_def io_return_def split: prod.splits sum.splits)

lemma drizzle_delete_passes_through:
  "drizzle_delete db i s =
     (case db_delete db (Eq ColId (DText i)) s of
        (Inl e, s') \<Rightarrow> (Inl e, s') | (Inr n, s') \<Rightarrow> (Inr (), s'))"
  by (simp add: drizzle_delete_def io_bind_def io_return_def split: prod.splits sum.splits)

lemma prisma_delete_passes_through:
  "prisma_delete prisma i s =
     (case errorLog_delete prisma i s of
        (Inl e, s') \<Rightarrow> (Inl e, s') | (Inr n, s') \<Rightarrow> (Inr (), s'))"
  by (simp add: prisma_delete_def io_bind_def io_return_def split: prod.splits sum.splits)

text \<open>
  C2. The claim (no adapter throws on an id that is not there) fails for the Prisma
  adapter: Prisma's \<^verbatim>\<open>delete\<close> rejects when no record has the id, and the adapter
  does not catch it. The table below is any table without a row of id \<open>i\<close>.
\<close>

theorem prisma_delete_missing_id_rejects:
  "prisma_delete memory_prisma i (filter (\<lambda>e. e_id e \<noteq> i) rows) =
     (Inl (Err ''Record to delete does not exist.''), filter (\<lambda>e. e_id e \<noteq> i) rows)"
proof -
  have "find (\<lambda>e. e_id e = i) (filter (\<lambda>e. e_id e \<noteq> i) rows) = None"
    by (simp add: find_None_iff)
  then show ?thesis
    by (simp add: prisma_delete_def memory_prisma_def io_bind_def)
qed

section \<open>findMany: the total\<close>

subsection \<open>The count request is built from the filters alone\<close>









subsection \<open>What the count request selects\<close>















section \<open>Logger facade\<close>

subsection \<open>Before initialization\<close>

lemma log_uninitialized:
  "log level message err context (p\<lparr>config := None\<rparr>) =
     (Inr \<lparr>success = False, entry = None, error = Some not_initialized\<rparr>,
      p\<lparr>config := None,
        console := console p @
          [(ConsoleError, [ArgText ''[@vinetechke/next-error-logger] Failed to log:'',
                           ArgThrown (Err not_initialized)])]\<rparr>)"
  by (simp add: log_def io_catch_def io_bind_def getConfig_def console_call_def io_return_def
      error_message_def)

lemma withUser_body_uninitialized:
  "withUser_body user level message stack context (p\<lparr>config := None\<rparr>) =
     (Inl (Err not_initialized), p\<lparr>config := None\<rparr>)"
  by (simp add: withUser_body_def io_bind_def getConfig_def)

text \<open>
  C5, as it is written, does not hold: before \<^verbatim>\<open>initErrorLogger\<close> has been called,
  \<^verbatim>\<open>errorLogger.error('boom')\<close> is not rejected. \<^verbatim>\<open>log\<close> catches the error of
  \<^verbatim>\<open>getConfig\<close>, writes it to the console and resolves with
  \<^verbatim>\<open>{ success: false, error }\<close>.
\<close>

theorem uninitialized_error_call_resolves:
  "config fresh_process = None \<and>
   errorLogger_error ''boom'' None None fresh_process =
     (Inr \<lparr>success = False, entry = None, error = Some not_initialized\<rparr>,
      fresh_process\<lparr>console :=
        [(ConsoleError, [ArgText ''[@vinetechke/next-error-logger] Failed to log:'',
                         ArgThrown (Err not_initialized)])]\<rparr>) \<and>
   (\<forall>e q. errorLogger_error ''boom'' None None fresh_process \<noteq> (Inl e, q))"
  by (simp add: errorLogger_error_def log_def io_catch_def io_bind_def getConfig_def
      console_call_def io_return_def error_message_def fresh_process_def)

text \<open>
  C5, amended. While \<^verbatim>\<open>config\<close> is null, every logging call ends with the
  "Logger not initialized" error and the state behind the adapters is not touched: the
  \<open>withUser\<close> calls reject with it; the direct and the request-bound calls resolve
  with \<^verbatim>\<open>{ success: false, error }\<close> carrying that message, and write one line to
  the console.
\<close>

theorem uninitialized_logging_outcome:
  "errorLogger_error message err context (p\<lparr>config := None\<rparr>) =
     (Inr \<lparr>success = False, entry = None, error = Some not_initialized\<rparr>,
      p\<lparr>config := None, console := console p @
          [(ConsoleError, [ArgText ''[@vinetechke/next-error-logger] Failed to log:'',
                           ArgThrown (Err not_initialized)])]\<rparr>) \<and>
   errorLogger_warn message err context (p\<lparr>config := None\<rparr>) =
     (Inr \<lparr>success = False, entry = None, error = Some not_initialized\<rparr>,
      p\<lparr>config := None, console := console p @
          [(ConsoleError, [ArgText ''[@vinetechke/next-error-logger] Failed to log:'',
                           ArgThrown (Err not_initialized)])]\<rparr>) \<and>
   errorLogger_info message context (p\<lparr>config := None\<rparr>) =
     (Inr \<lparr>success = False, entry = None, error = Some not_initialized\<rparr>,
      p\<lparr>config := None, console := console p @
          [(ConsoleError, [ArgText ''[@vinetechke/next-error-logger] Failed to log:'',
                           ArgThrown (Err not_initialized)])]\<rparr>) \<and>
   errorLogger_debug message context (p\<lparr>config := None\<rparr>) =
     (Inr \<lparr>success = False, entry = None, error = Some not_initialized\<rparr>,
      p\<lparr>config := None, console := console p @
          [(ConsoleError, [ArgText ''[@vinetechke/next-error-logger] Failed to log:'',
                           ArgThrown (Err not_initialized)])]\<rparr>) \<and>
   fromRequest_error request message err metadata (p\<lparr>config := None\<rparr>) =
     (Inr \<lparr>success = False, entry = None, error = Some not_initialized\<rparr>,
      p\<lparr>config := None, console := console p @
          [(ConsoleError, [ArgText ''[@vinetechke/next-error-logger] Failed to log:'',
                           ArgThrown (Err not_initialized)])]\<rparr>) \<and>
   fromRequest_warn request message metadata (p\<lparr>config := None\<rparr>) =
     (Inr \<lparr>success = False, entry = None, error = Some not_initialized\<rparr>,
      p\<lparr>config := None, console := console p @
          [(ConsoleError, [ArgText ''[@vinetechke/next-error-logger] Failed to log:'',
                           ArgThrown (Err not_initialized)])]\<rparr>) \<and>
   fromRequest_info request message metadata (p\<lparr>config := None\<rparr>) =
     (Inr \<lparr>success = False, entry = None, error = Some not_initialized\<rparr>,
      p\<lparr>config := None, console := console p @
          [(ConsoleError, [ArgText ''[@vinetechke/next-error-logger] Failed to log:'',
                           ArgThrown (Err not_initialized)])]\<rparr>) \<and>
   fromRequest_debug request message metadata (p\<lparr>config := None\<rparr>) =
     (Inr \<lparr>success = False, entry = None, error = Some not_initialized\<rparr>,
      p\<lparr>config := None, console := console p @
          [(ConsoleError, [ArgText ''[@vinetechke/next-error-logger] Failed to log:'',
                           ArgThrown (Err not_initialized)])]\<rparr>) \<and>
   withUser_error user message err context (p\<lparr>config := None\<rparr>) =
     (Inl (Err not_initialized), p\<lparr>config := None\<rparr>) \<and>
   withUser_warn user message context (p\<lparr>config := None\<rparr>) =
     (Inl (Err not_initialized), p\<lparr>config := None\<rparr>) \<and>
   withUser_info user message context (p\<lparr>config := None\<rparr>) =
     (Inl (Err not_initialized), p\<lparr>config := None\<rparr>)"
  by (simp only: errorLogger_error_def errorLogger_warn_def errorLogger_info_def
      errorLogger_debug_def fromRequest_error_def fromRequest_warn_def fromRequest_info_def
      fromRequest_debug_def withUser_error_def withUser_warn_def withUser_info_def
      log_uninitialized withUser_body_uninitialized simp_thms)

subsection \<open>A failing storage adapter\<close>

lemma console_in_dev_store:
  "\<exists>q. console_in_dev cfg level message err context p = (Inr (), q) \<and> store q = store p \<and>
       config q = config p"
  by (simp add: console_in_dev_def console_call_def)

lemma get_user_never_rejects: "\<exists>u q. get_user cfg p = (Inr u, q)"
  by (auto simp: get_user_def io_return_def io_catch_def split: option.splits prod.splits sum.splits)

text \<open>\<^verbatim>\<open>log\<close> never rejects, whatever the state and the adapters.\<close>

lemma log_never_rejects: "\<exists>r q. log level message err context p = (Inr r, q)"
  unfolding log_def io_catch_def
  by (auto simp: io_bind_def console_call_def io_return_def split: prod.splits sum.splits)

text \<open>Through \<^verbatim>\<open>log\<close>, a level outside the allow-list is a no-op that reports success.\<close>

lemma log_filtered:
  assumes "config p = Some cfg" "levels cfg = Some ls" "level \<notin> set ls"
  shows "log level message err context p = (Inr \<lparr>success = True, entry = None, error = None\<rparr>, p)"
  using assms
  by (simp add: log_def io_catch_def io_bind_def getConfig_def io_return_def)

text \<open>A rejection of \<^verbatim>\<open>create\<close> comes back as \<^verbatim>\<open>{ success: false, error }\<close>.\<close>

lemma log_create_failure:
  assumes cfg: "config p = Some cfg"
    and cr: "\<forall>n s. fst (create (adapter cfg) n s) = Inl e"
  shows "fst (log level message err context p) =
           (if captured cfg level
            then Inr \<lparr>success = False, entry = None, error = Some (error_message e)\<rparr>
            else Inr \<lparr>success = True, entry = None, error = None\<rparr>)"
proof (cases "captured cfg level")
  case False
  then obtain ls where "levels cfg = Some ls" "level \<notin> set ls"
    by (auto simp: captured_def split: option.splits)
  then show ?thesis
    using log_filtered[OF cfg] False by simp
next
  case True
  then have lv: "\<not> (case levels cfg of None \<Rightarrow> False | Some ls \<Rightarrow> level \<notin> set ls)"
    by (simp add: captured_def split: option.splits)
  obtain q where q: "console_in_dev cfg level message err context p = (Inr (), q)"
    using console_in_dev_store by blast
  obtain u q1 where gu: "get_user cfg q = (Inr u, q1)"
    using get_user_never_rejects by blast
  have cr1: "\<exists>s1. create (adapter cfg) n (store q1) = (Inl e, s1)" for n
    using cr by (metis prod.collapse)
  obtain s1 where s1: "create (adapter cfg)
                 \<lparr>n_level = level,
                  n_message = message,
                  n_stack = (case err of None \<Rightarrow> None | Some e \<Rightarrow> or_null (stack_of e)),
                  n_userId = (case u of None \<Rightarrow> None | Some u \<Rightarrow> or_null (Some (u_id u))),
                  n_userEmail = (case u of None \<Rightarrow> None | Some u \<Rightarrow> or_null (u_email u)),
                  n_userName = (case u of None \<Rightarrow> None | Some u \<Rightarrow> or_null (u_name u)),
                  n_path = context_field c_path context,
                  n_method = context_field c_method context,
                  n_userAgent = context_field c_userAgent context,
                  n_ip = context_field c_ip context,
                  n_metadata = context_metadata context\<rparr> (store q1) = (Inl e, s1)"
    using cr1 by blast
  show ?thesis
    using cfg lv q gu s1 True
    by (simp add: log_def io_catch_def io_bind_def getConfig_def on_store_def io_return_def
        console_call_def)
qed

lemma withUser_body_create_failure:
  assumes cfg: "config p = Some cfg"
    and cr: "\<forall>n s. fst (create (adapter cfg) n s) = Inl e"
  shows "fst (withUser_body user level message stack context p) =
           Inr \<lparr>success = False, entry = None, error = Some (error_message e)\<rparr>"
proof -
  obtain s1 where "create (adapter cfg)
               \<lparr>n_level = level, n_message = message, n_stack = stack,
                n_userId = Some (u_id user), n_userEmail = or_null (u_email user),
                n_userName = or_null (u_name user),
                n_path = context_field c_path context,
                n_method = context_field c_method context,
                n_userAgent = context_field c_userAgent context,
                n_ip = context_field c_ip context,
                n_metadata = context_metadata context\<rparr> (store p) = (Inl e, s1)"
    using cr by (metis prod.collapse)
  then show ?thesis
    using cfg
    by (simp add: withUser_body_def io_catch_def io_bind_def getConfig_def on_store_def
        io_return_def)
qed

text \<open>
  C4. With the logger initialized and a storage adapter whose \<^verbatim>\<open>create\<close> rejects
  with \<open>e\<close>, every logging call that gets to \<^verbatim>\<open>create\<close> resolves with
  \<^verbatim>\<open>{ success: false, error }\<close>, where \<open>error\<close> is the message of \<open>e\<close>; none
  rejects. That is each of the three \<open>withUser\<close> calls, and each direct and
  request-bound call whose level passes the allow-list; a call whose level does not pass
  it never gets to \<^verbatim>\<open>create\<close> and resolves with \<^verbatim>\<open>{ success: true }\<close>.
\<close>

theorem create_failure_is_returned:
  assumes "config p = Some cfg"
    and "\<forall>n s. fst (create (adapter cfg) n s) = Inl e"
  shows "fst (errorLogger_error message err ctx p) =
           (if captured cfg LevelError
            then Inr \<lparr>success = False, entry = None, error = Some (error_message e)\<rparr>
            else Inr \<lparr>success = True, entry = None, error = None\<rparr>) \<and>
         fst (errorLogger_warn message err ctx p) =
           (if captured cfg LevelWarn
            then Inr \<lparr>success = False, entry = None, error = Some (error_message e)\<rparr>
            else Inr \<lparr>success = True, entry = None, error = None\<rparr>) \<and>
         fst (errorLogger_info message ctx p) =
           (if captured cfg LevelInfo
            then Inr \<lparr>success = False, entry = None, error = Some (error_message e)\<rparr>
            else Inr \<lparr>success = True, entry = None, error = None\<rparr>) \<and>
         fst (errorLogger_debug message ctx p) =
           (if captured cfg LevelDebug
            then Inr \<lparr>success = False, entry = None, error = Some (error_message e)\<rparr>
            else Inr \<lparr>success = True, entry = None, error = None\<rparr>) \<and>
         fst (fromRequest_error request message err metadata p) =
           (if captured cfg LevelError
            then Inr \<lparr>success = False, entry = None, error = Some (error_message e)\<rparr>
            else Inr \<lparr>success = True, entry = None, error = None\<rparr>) \<and>
         fst (fromRequest_warn request message metadata p) =
           (if captured cfg LevelWarn
            then Inr \<lparr>success = False, entry = None, error = Some (error_message e)\<rparr>
            else Inr \<lparr>success = True, entry = None, error = None\<rparr>) \<and>
         fst (fromRequest_info request message metadata p) =
           (if captured cfg LevelInfo
            then Inr \<lparr>success = False, entry = None, error = Some (error_message e)\<rparr>
            else Inr \<lparr>success = True, entry = None, error = None\<rparr>) \<and>
         fst (fromRequest_debug request message metadata p) =
           (if captured cfg LevelDebug
            then Inr \<lparr>success = False, entry = None, error = Some (error_message e)\<rparr>
            else Inr \<lparr>success = True, entry = None, error = None\<rparr>) \<and>
         fst (withUser_error user message err ctx p) =
           Inr \<lparr>success = False, entry = None, error = Some (error_message e)\<rparr> \<and>
         fst (withUser_warn user message ctx p) =
           Inr \<lparr>success = False, entry = None, error = Some (error_message e)\<rparr> \<and>
         fst (withUser_info user message ctx p) =
           Inr \<lparr>success = False, entry = None, error = Some (error_message e)\<rparr>"
  unfolding errorLogger_error_def errorLogger_warn_def errorLogger_info_def
    errorLogger_debug_def fromRequest_error_def fromRequest_warn_def fromRequest_info_def
    fromRequest_debug_def withUser_error_def withUser_warn_def withUser_info_def
  by (intro conjI log_create_failure[OF assms] withUser_body_create_failure[OF assms])

theorem create_failure_is_returned_witness:
  "fst (errorLogger_error ''boom'' None None (initErrorLogger with_failing_adapter fresh_process)) =
     Inr \<lparr>success = False, entry = None, error = Some ''connection refused''\<rparr> \<and>
   fst (errorLogger_warn ''boom'' None None (initErrorLogger with_failing_adapter fresh_process)) =
     Inr \<lparr>success = False, entry = None, error = Some ''connection refused''\<rparr> \<and>
   fst (errorLogger_info ''boom'' None (initErrorLogger with_failing_adapter fresh_process)) =
     Inr \<lparr>success = False, entry = None, error = Some ''connection refused''\<rparr> \<and>
   fst (errorLogger_debug ''boom'' None (initErrorLogger with_failing_adapter fresh_process)) =
     Inr \<lparr>success = False, entry = None, error = Some ''connection refused''\<rparr> \<and>
   fst (fromRequest_error sample_request ''boom'' None None
          (initErrorLogger with_failing_adapter fresh_process)) =
     Inr \<lparr>success = False, entry = None, error = Some ''connection refused''\<rparr> \<and>
   fst (fromRequest_warn sample_request ''boom'' None
          (initErrorLogger with_failing_adapter fresh_process)) =
     Inr \<lparr>success = False, entry = None, error = Some ''connection refused''\<rparr> \<and>
   fst (fromRequest_info sample_request ''boom'' None
          (initErrorLogger with_failing_adapter fresh_process)) =
     Inr \<lparr>success = False, entry = None, error = Some ''connection refused''\<rparr> \<and>
   fst (fromRequest_debug sample_request ''boom'' None
          (initErrorLogger with_failing_adapter fresh_process)) =
     Inr \<lparr>success = False, entry = None, error = Some ''connection refused''\<rparr> \<and>
   fst (withUser_error sample_user ''boom'' None None
          (initErrorLogger with_failing_adapter fresh_process)) =
     Inr \<lparr>success = False, entry = None, error = Some ''connection refused''\<rparr> \<and>
   fst (withUser_warn sample_user ''boom'' None
          (initErrorLogger with_failing_adapter fresh_process)) =
     Inr \<lparr>success = False, entry = None, error = Some ''connection refused''\<rparr> \<and>
   fst (withUser_info sample_user ''boom'' None
          (initErrorLogger with_failing_adapter fresh_process)) =
     Inr \<lparr>success = False, entry = None, error = Some ''connection refused''\<rparr>"
proof -
  let ?cfg = "with_failing_adapter\<lparr>consoleInDev := Some True, retentionDays := Some 30\<rparr>"
  have c: "config (initErrorLogger with_failing_adapter fresh_process) = Some ?cfg"
    by (simp add: initErrorLogger_def with_failing_adapter_def fresh_process_def)
  have cr: "\<forall>n s. fst (create (adapter ?cfg) n s) = Inl (Err ''connection refused'')"
    by (simp add: with_failing_adapter_def failing_adapter_def io_throw_def)
  have l: "captured ?cfg level" for level
    by (simp add: captured_def with_failing_adapter_def)
  have m: "error_message (Err ''connection refused'') = ''connection refused''"
    by (simp add: error_message_def)
  from create_failure_is_returned[OF c cr, of "''boom''" None None sample_request None sample_user]
  show ?thesis
    by (simp only: l m if_True)
qed

subsection \<open>A failing auth adapter\<close>

text \<open>
  C6. With the logger initialized, the level let through, and a configured auth adapter
  whose \<^verbatim>\<open>getUser\<close> rejects: \<^verbatim>\<open>log\<close> calls \<^verbatim>\<open>create\<close> with
  \<open>userId\<close>, \<open>userEmail\<close> and \<open>userName\<close> all null, and when that call stores the
  entry, \<^verbatim>\<open>log\<close> resolves with \<^verbatim>\<open>success: true\<close> and the stored entry.
\<close>

theorem log_auth_failure_swallowed:
  assumes cfg: "config p = Some cfg"
    and allowed: "(case levels cfg of None \<Rightarrow> True | Some ls \<Rightarrow> level \<in> set ls)"
    and auth: "authAdapter cfg = Some auth" "getUser auth (store p) = (Inl e, s1)"
    and cr: "create (adapter cfg)
               \<lparr>n_level = level, n_message = message,
                n_stack = (case err of None \<Rightarrow> None | Some x \<Rightarrow> or_null (stack_of x)),
                n_userId = None, n_userEmail = None, n_userName = None,
                n_path = context_field c_path context,
                n_method = context_field c_method context,
                n_userAgent = context_field c_userAgent context,
                n_ip = context_field c_ip context,
                n_metadata = context_metadata context\<rparr> s1 = (Inr created, s2)"
  shows "fst (log level message err context p) =
           Inr \<lparr>success = True, entry = Some created, error = None\<rparr> \<and>
         store (snd (log level message err context p)) = s2"
proof -
  have lv: "\<not> (case levels cfg of None \<Rightarrow> False | Some ls \<Rightarrow> level \<notin> set ls)"
    using allowed by (simp split: option.splits)
  obtain q where q: "console_in_dev cfg level message err context p = (Inr (), q)"
    and sq: "store q = store p"
    using console_in_dev_store by blast
  have gu: "get_user cfg q = (Inr None, q\<lparr>store := s1\<rparr>)"
    using auth sq by (simp add: get_user_def io_catch_def on_store_def io_return_def)
  show ?thesis
    using cfg lv q gu cr
    by (simp add: log_def io_catch_def io_bind_def getConfig_def on_store_def io_return_def)
qed

theorem log_auth_failure_swallowed_witness:
  "fst (log LevelError ''boom'' None None (initErrorLogger with_failing_auth fresh_process)) =
     Inr \<lparr>success = True,
          entry = Some \<lparr>n_level = LevelError, n_message = ''boom'', n_stack = None,
                        n_userId = None, n_userEmail = None, n_userName = None, n_path = None,
                        n_method = None, n_userAgent = None, n_ip = None, n_metadata = None,
                        e_id = ''0'', e_createdAt = Date 0\<rparr>,
          error = None\<rparr> \<and>
   store (snd (log LevelError ''boom'' None None (initErrorLogger with_failing_auth fresh_process))) =
     [\<lparr>n_level = LevelError, n_message = ''boom'', n_stack = None,
       n_userId = None, n_userEmail = None, n_userName = None, n_path = None,
       n_method = None, n_userAgent = None, n_ip = None, n_metadata = None,
       e_id = ''0'', e_createdAt = Date 0\<rparr>]"
proof -
  let ?p = "initErrorLogger with_failing_auth fresh_process"
  let ?cfg = "with_failing_auth\<lparr>consoleInDev := Some True, retentionDays := Some 30\<rparr>"
  let ?E = "\<lparr>n_level = LevelError, n_message = ''boom'', n_stack = None,
       n_userId = None, n_userEmail = None, n_userName = None, n_path = None,
       n_method = None, n_userAgent = None, n_ip = None, n_metadata = None,
       e_id = ''0'', e_createdAt = Date 0\<rparr>"
  have c: "config ?p = Some ?cfg"
    by (simp add: initErrorLogger_def with_failing_auth_def fresh_process_def)
  have l: "(case levels ?cfg of None \<Rightarrow> True | Some ls \<Rightarrow> LevelError \<in> set ls)"
    by (simp add: with_failing_auth_def)
  have a: "authAdapter ?cfg = Some failing_auth"
    by (simp add: with_failing_auth_def)
  have g: "getUser failing_auth (store ?p) = (Inl (Err ''Auth failed''), [])"
    by (simp add: failing_auth_def io_throw_def initErrorLogger_def fresh_process_def)
  have cr: "create (adapter ?cfg)
               \<lparr>n_level = LevelError, n_message = ''boom'',
                n_stack = (case None of None \<Rightarrow> None | Some x \<Rightarrow> or_null (stack_of x)),
                n_userId = None, n_userEmail = None, n_userName = None,
                n_path = context_field c_path None,
                n_method = context_field c_method None,
                n_userAgent = context_field c_userAgent None,
                n_ip = context_field c_ip None,
                n_metadata = context_metadata None\<rparr> [] = (Inr ?E, [?E])"
    by (simp add: with_failing_auth_def memory_adapter_def context_field_def context_metadata_def
        Let_def NewEntry.extend_def ErrorLogEntry.fields_def show_nat_digit digit_char_def)
  from log_auth_failure_swallowed[OF c l a g cr] show ?thesis .
qed

text \<open>The NextAuth adapter itself turns a failing session function into null.\<close>

lemma createNextAuthAdapter_failure_is_null:
  "authFn s = (Inl e, s1) \<Longrightarrow> getUser (createNextAuthAdapter authFn) s = (Inr None, s1)"
  by (simp add: createNextAuthAdapter_def io_catch_def io_bind_def io_return_def)

lemma createNextAuthAdapter_never_rejects:
  "\<exists>u q. getUser (createNextAuthAdapter authFn) s = (Inr u, q)"
  by (auto simp: createNextAuthAdapter_def io_catch_def io_bind_def io_return_def
      split: prod.splits sum.splits option.splits)

subsection \<open>The level allow-list\<close>

text \<open>
  C7. The claim (a call whose level is outside the allow-list writes nothing) fails for
  the \<open>withUser\<close> calls, which never read \<open>levels\<close>: with the allow-list
  \<^verbatim>\<open>['error', 'warn']\<close>, \<^verbatim>\<open>withUser(user).info(...)\<close> stores an entry, where
  \<^verbatim>\<open>errorLogger.info(...)\<close> on the same state stores nothing.
\<close>

theorem withUser_info_ignores_allow_list:
  "withUser_info sample_user ''signed in'' None (initErrorLogger errors_and_warnings_only fresh_process) =
     (Inr \<lparr>success = True,
           entry = Some \<lparr>n_level = LevelInfo, n_message = ''signed in'', n_stack = None,
                         n_userId = Some ''u1'', n_userEmail = Some ''u1@example.com'',
                         n_userName = None, n_path = None, n_method = None, n_userAgent = None,
                         n_ip = None, n_metadata = None, e_id = ''0'', e_createdAt = Date 0\<rparr>,
           error = None\<rparr>,
      (initErrorLogger errors_and_warnings_only fresh_process)
        \<lparr>store := [\<lparr>n_level = LevelInfo, n_message = ''signed in'', n_stack = None,
                    n_userId = Some ''u1'', n_userEmail = Some ''u1@example.com'',
                    n_userName = None, n_path = None, n_method = None, n_userAgent = None,
                    n_ip = None, n_metadata = None, e_id = ''0'', e_createdAt = Date 0\<rparr>]\<rparr>) \<and>
   errorLogger_info ''signed in'' None (initErrorLogger errors_and_warnings_only fresh_process) =
     (Inr \<lparr>success = True, entry = None, error = None\<rparr>,
      initErrorLogger errors_and_warnings_only fresh_process)"
  by (simp add: withUser_info_def withUser_body_def errorLogger_info_def log_def initErrorLogger_def
      errors_and_warnings_only_def fresh_process_def memory_adapter_def sample_user_def
      io_catch_def io_bind_def getConfig_def on_store_def io_return_def or_null_def
      context_field_def context_metadata_def show_nat_digit digit_char_def
      NewEntry.extend_def ErrorLogEntry.fields_def Let_def)

section \<open>The delete-many handler\<close>

lemma delete_options_object:
  "delete_options newDate (JObj members) =
     Inr \<lparr>d_before = (case map_of members ''before'' of
                         None \<Rightarrow> None
                       | Some v \<Rightarrow> if truthy_json v then Some (newDate v) else None),
          d_level = map_of members ''level''\<rparr>"
  by (simp add: delete_options_def)

text \<open>
  C9. For an authorized request on an initialized logger: a body that is missing or is not
  JSON counts as \<^verbatim>\<open>{}\<close>, a JSON object gives \<open>before\<close> (as a Date, when truthy)
  and \<open>level\<close>; the handler calls the configured adapter's \<^verbatim>\<open>deleteMany\<close> with
  these options, and when that resolves with \<open>n\<close> it answers
  \<^verbatim>\<open>{ deleted: n }\<close> with status 200.
\<close>

theorem delete_many_handler:
  assumes "isAuthorized request p = (Inr True, p1)" "config p1 = Some cfg"
    and "(\<exists>e. r_json request = Inl e) \<and> options = \<lparr>d_before = None, d_level = None\<rparr> \<or>
         (\<exists>members. r_json request = Inr (JObj members) \<and>
            options = \<lparr>d_before = (case map_of members ''before'' of
                                      None \<Rightarrow> None
                                    | Some v \<Rightarrow> if truthy_json v then Some (newDate v) else None),
                       d_level = map_of members ''level''\<rparr>)"
    and "deleteMany (adapter cfg) options (store p1) = (Inr n, s2)"
  shows "createLogAPIHandlers_DELETE newDate isAuthorized request p =
           (Inr \<lparr>status = 200, body = JObj [(''deleted'', JNum n)]\<rparr>, p1\<lparr>store := s2\<rparr>)"
proof -
  have o: "delete_options newDate (case r_json request of Inl _ \<Rightarrow> JObj [] | Inr parsed \<Rightarrow> parsed)
             = Inr options"
    using assms(3) by (auto simp: delete_options_object)
  show ?thesis
    using assms(1,2,4) o
    by (simp add: createLogAPIHandlers_DELETE_def io_bind_def isInitialized_def getConfig_def
        io_catch_def on_store_def io_return_def)
qed

theorem delete_many_handler_witness:
  "createLogAPIHandlers_DELETE date_of_number (\<lambda>r. io_return True)
     (delete_request (Inl (Err ''Unexpected end of JSON input'')))
     ((initErrorLogger errors_and_warnings_only fresh_process)\<lparr>store := three_rows\<rparr>) =
     (Inr \<lparr>status = 200, body = JObj [(''deleted'', JNum 0)]\<rparr>,
      (initErrorLogger errors_and_warnings_only fresh_process)\<lparr>store := three_rows\<rparr>) \<and>
   createLogAPIHandlers_DELETE date_of_number (\<lambda>r. io_return True)
     (delete_request (Inr (JObj [(''before'', JNum 3), (''level'', JStr ''error'')])))
     ((initErrorLogger errors_and_warnings_only fresh_process)\<lparr>store := three_rows\<rparr>) =
     (Inr \<lparr>status = 200, body = JObj [(''deleted'', JNum 1)]\<rparr>,
      (initErrorLogger errors_and_warnings_only fresh_process)
        \<lparr>store := [sample_entry ''b'' LevelWarn 2, sample_entry ''c'' LevelError 3]\<rparr>)"
proof -
  let ?p = "(initErrorLogger errors_and_warnings_only fresh_process)\<lparr>store := three_rows\<rparr>"
  let ?cfg = "errors_and_warnings_only\<lparr>consoleInDev := Some True, retentionDays := Some 30\<rparr>"
  have a: "(\<lambda>r. io_return True) (delete_request (Inl (Err ''Unexpected end of JSON input''))) ?p
       = (Inr True, ?p)"
    by (simp add: io_return_def)
  have a2: "(\<lambda>r. io_return True)
       (delete_request (Inr (JObj [(''before'', JNum 3), (''level'', JStr ''error'')]))) ?p
       = (Inr True, ?p)"
    by (simp add: io_return_def)
  have c: "config ?p = Some ?cfg"
    by (simp add: initErrorLogger_def errors_and_warnings_only_def fresh_process_def)
  have d1: "deleteMany (adapter ?cfg) \<lparr>d_before = None, d_level = None\<rparr> (store ?p) = (Inr 0, three_rows)"
    by (simp add: errors_and_warnings_only_def memory_adapter_def present_def)
  have d2: "deleteMany (adapter ?cfg) \<lparr>d_before = Some (Date 3), d_level = Some (JStr ''error'')\<rparr> (store ?p)
      = (Inr 1, [sample_entry ''b'' LevelWarn 2, sample_entry ''c'' LevelError 3])"
    by (simp add: errors_and_warnings_only_def memory_adapter_def present_def three_rows_def
        deletion_matches_def sample_entry_def)
  have r1: "r_json (delete_request (Inl (Err ''Unexpected end of JSON input''))) =
      Inl (Err ''Unexpected end of JSON input'')"
    by (simp add: delete_request_def)
  have r2: "r_json (delete_request (Inr (JObj [(''before'', JNum 3), (''level'', JStr ''error'')]))) =
      Inr (JObj [(''before'', JNum 3), (''level'', JStr ''error'')])"
    by (simp add: delete_request_def)
  have o2: "\<lparr>d_before = Some (Date 3), d_level = Some (JStr ''error'')\<rparr> =
     \<lparr>d_before = (case map_of [(''before'', JNum 3), (''level'', JStr ''error'')] ''before'' of
                    None \<Rightarrow> None
                  | Some v \<Rightarrow> if truthy_json v then Some (date_of_number v) else None),
      d_level = map_of [(''before'', JNum 3), (''level'', JStr ''error'')] ''level''\<rparr>"
    by (simp add: date_of_number_def)
  have w1: "createLogAPIHandlers_DELETE date_of_number (\<lambda>r. io_return True)
     (delete_request (Inl (Err ''Unexpected end of JSON input''))) ?p =
     (Inr \<lparr>status = 200, body = JObj [(''deleted'', JNum 0)]\<rparr>, ?p\<lparr>store := three_rows\<rparr>)"
    using delete_many_handler[where isAuthorized = "\<lambda>r. io_return True"
        and request = "delete_request (Inl (Err ''Unexpected end of JSON input''))"
        and p = ?p and ?p1.0 = ?p and cfg = ?cfg
        and options = "\<lparr>d_before = None, d_level = None\<rparr>"
        and n = 0 and ?s2.0 = three_rows and newDate = date_of_number]
      a c d1 r1 by blast
  have w2: "createLogAPIHandlers_DELETE date_of_number (\<lambda>r. io_return True)
     (delete_request (Inr (JObj [(''before'', JNum 3), (''level'', JStr ''error'')]))) ?p =
     (Inr \<lparr>status = 200, body = JObj [(''deleted'', JNum 1)]\<rparr>,
      ?p\<lparr>store := [sample_entry ''b'' LevelWarn 2, sample_entry ''c'' LevelError 3]\<rparr>)"
    using delete_many_handler[where isAuthorized = "\<lambda>r. io_return True"
        and request = "delete_request (Inr (JObj [(''before'', JNum 3), (''level'', JStr ''error'')]))"
        and p = ?p and ?p1.0 = ?p and cfg = ?cfg
        and options = "\<lparr>d_before = Some (Date 3), d_level = Some (JStr ''error'')\<rparr>"
        and n = 1 and ?s2.0 = "[sample_entry ''b'' LevelWarn 2, sample_entry ''c'' LevelError 3]"
        and newDate = date_of_number]
      a2 c d2 r2 o2 by blast
  from w1 w2 show ?thesis by simp
qed

text \<open>A body that is the JSON value \<^verbatim>\<open>null\<close> is answered with status 500.\<close>

lemma delete_many_handler_null_body:
  assumes "isAuthorized request p = (Inr True, p1)" "config p1 = Some cfg"
    and "r_json request = Inr JNull"
  shows "fst (createLogAPIHandlers_DELETE newDate isAuthorized request p) =
           Inr (json_error ''Failed to delete logs'' 500) \<and>
         store (snd (createLogAPIHandlers_DELETE newDate isAuthorized request p)) = store p1"
  using assms
  by (simp add: createLogAPIHandlers_DELETE_def io_bind_def isInitialized_def getConfig_def
        io_catch_def on_store_def io_return_def delete_options_def io_throw_def console_call_def)

end
